theory Spec2Isabelle
  imports Complex_Main
begin

section \<open>Values shared with the host recording system\<close>

text \<open>
  The adapter (package \<open>pdf\<close>) sits between two collaborators that are not part of the
  repository: the recording system \<open>gg/recording\<close>, whose values it receives, and the
  document engine \<open>gxpdf/creator\<close>, whose calls it issues. Their value types are
  modelled here as far as the adapter reads or builds them. Every \<open>float64\<close> is
  modelled as a \<open>real\<close>: the adapter only copies, compares and divides such values.
  Paths, images and brush pointers handed to the adapter are taken to be non-nil.
\<close>

type_synonym Error = string

text \<open>\<open>recording.Matrix\<close>, row-major \<open>[A B C; D E F]\<close>.\<close>

record Matrix =
  mA :: real
  mB :: real
  mC :: real
  mD :: real
  mE :: real
  mF :: real

text \<open>\<open>recording.Identity()\<close>: the row-major identity \<open>[1 0 0; 0 1 0]\<close>.\<close>

definition recording_Identity :: Matrix where
  "recording_Identity = \<lparr>mA = 1, mB = 0, mC = 0, mD = 0, mE = 1, mF = 0\<rparr>"

text \<open>\<open>recording.Translate(x, y)\<close>, used by the repository's tests.\<close>

definition recording_Translate :: "real \<Rightarrow> real \<Rightarrow> Matrix" where
  "recording_Translate x y = \<lparr>mA = 1, mB = 0, mC = x, mD = 0, mE = 1, mF = y\<rparr>"

record Point =
  ptX :: real
  ptY :: real

text \<open>
  \<open>gg.RGBA\<close>: four \<open>float64\<close> channels. A colour of the host has its channels between
  \<open>0\<close> and \<open>1\<close>: the repository's README records red with \<open>SetFillRGBA(1, 0, 0, 1)\<close>.
  The repository's own tests write channels up to \<open>255\<close> into the same type.
\<close>

record RGBA =
  cR :: real
  cG :: real
  cB :: real
  cA :: real

record GradientStop =
  stopOffset :: real
  stopColor :: RGBA

text \<open>
  \<open>recording.Brush\<close> is an interface; the adapter switches on its dynamic type. The four
  types its switch names are constructors here: \<open>recording.SolidBrush\<close> and the pointer
  types \<open>*recording.LinearGradientBrush\<close>, \<open>*recording.RadialGradientBrush\<close> and
  \<open>*recording.SweepGradientBrush\<close> (pointers taken to be non-nil).
  \<open>SweepGradientBrushByValue\<close> is a sweep gradient held by value, a dynamic type the
  switch does not name; \<open>OtherBrush\<close> stands for every other dynamic type, the nil
  interface included.
\<close>

datatype Brush =
    SolidBrush RGBA
  | LinearGradientBrush Point Point "GradientStop list"
  | RadialGradientBrush Point Point real real "GradientStop list"
  | SweepGradientBrush Point real "GradientStop list"
  | SweepGradientBrushByValue Point real "GradientStop list"
  | OtherBrush

datatype FillRule = FillRuleNonZero | FillRuleEvenOdd

datatype LineCap = LineCapButt | LineCapRound | LineCapSquare

datatype LineJoin = LineJoinMiter | LineJoinRound | LineJoinBevel

record Stroke =
  strokeWidth :: real
  strokeCap :: LineCap
  strokeJoin :: LineJoin
  strokeMiterLimit :: real
  strokeDashPattern :: "real list"
  strokeDashOffset :: real

record Rect =
  MinX :: real
  MinY :: real
  MaxX :: real
  MaxY :: real

definition rectWidth :: "Rect \<Rightarrow> real" where
  "rectWidth r = MaxX r - MinX r"

definition rectHeight :: "Rect \<Rightarrow> real" where
  "rectHeight r = MaxY r - MinY r"

text \<open>\<open>gg.Path\<close> elements, as \<open>translatePath\<close> switches on them.\<close>

datatype PathElement =
    MoveTo Point
  | LineTo Point
  | QuadTo Point Point
  | CubicTo Point Point Point
  | Close

type_synonym Path = "PathElement list"

text \<open>\<open>text.Face\<close>: the two numbers \<open>DrawText\<close> reads, \<open>Size()\<close> and \<open>Metrics().LineHeight()\<close>.\<close>

record Face =
  faceSize :: real
  faceLineHeight :: real


text \<open>\<open>image.Image\<close> is opaque to the adapter: it is only handed to the PNG encoder.\<close>

type_synonym Image = nat


section \<open>The document engine\<close>

text \<open>
  \<open>creator.Transform\<close> holds \<open>[a b c d e f]\<close> for the matrix \<open>[a c e; b d f; 0 0 1]\<close>, as the
  comment in \<open>matrixToTransform\<close> says.
\<close>

record Transform =
  tA :: real
  tB :: real
  tC :: real
  tD :: real
  tE :: real
  tF :: real

definition creator_Identity :: Transform where
  "creator_Identity = \<lparr>tA = 1, tB = 0, tC = 0, tD = 1, tE = 0, tF = 0\<rparr>"

definition creator_Translate :: "real \<Rightarrow> real \<Rightarrow> Transform" where
  "creator_Translate x y = \<lparr>tA = 1, tB = 0, tC = 0, tD = 1, tE = x, tF = y\<rparr>"

definition creator_Scale :: "real \<Rightarrow> real \<Rightarrow> Transform" where
  "creator_Scale x y = \<lparr>tA = x, tB = 0, tC = 0, tD = y, tE = 0, tF = 0\<rparr>"

text \<open>The device point a transform sends a point to.\<close>

definition applyTransform :: "Transform \<Rightarrow> real \<times> real \<Rightarrow> real \<times> real" where
  "applyTransform t p =
     (tA t * fst p + tC t * snd p + tE t, tB t * fst p + tD t * snd p + tF t)"

text \<open>
  Modelled from the spec: \<open>Transform.Then\<close> of the document engine, which is not part of
  the repository. The spec fixes the flip \<open>Translate(0, h).Then(Scale(1, -1))\<close> as the map
  from \<open>(x, y)\<close> to \<open>(x, h - y)\<close>, so \<open>t.Then(u)\<close> is the matrix product of \<open>t\<close> and \<open>u\<close>:
  \<open>u\<close> acts on the point first, as a layer pushed after \<open>t\<close> does.
\<close>

definition Then :: "Transform \<Rightarrow> Transform \<Rightarrow> Transform" where
  "Then t u =
     \<lparr>tA = tA t * tA u + tC t * tB u,
      tB = tB t * tA u + tD t * tB u,
      tC = tA t * tC u + tC t * tD u,
      tD = tB t * tC u + tD t * tD u,
      tE = tA t * tE u + tC t * tF u + tE t,
      tF = tB t * tE u + tD t * tF u + tF t\<rparr>"

record Color =
  colR :: real
  colG :: real
  colB :: real

definition Black :: Color where
  "Black = \<lparr>colR = 0, colG = 0, colB = 0\<rparr>"

datatype PdfFillRule = PdfNonZero | PdfEvenOdd

datatype PdfLineCap = PdfCapButt | PdfCapRound | PdfCapSquare

datatype PdfLineJoin = PdfJoinMiter | PdfJoinRound | PdfJoinBevel

datatype PdfPathOp =
    PdfMoveTo real real
  | PdfLineTo real real
  | PdfQuadraticTo real real real real
  | PdfCubicTo real real real real real real
  | PdfClose

text \<open>
  A call that does not return: the Go runtime's panic on a \<open>nil\<close> page or surface, and the
  two panics of the engine that the adapter's calls can meet, a path segment with no
  current point and a \<open>Pop\<close> with no layer to pop.
\<close>

datatype Panic = NilDereference | NoCurrentPoint | PopWithoutPush

text \<open>
  A \<open>creator.Path\<close> under construction: the operations it holds and whether it has a
  current point. \<open>MoveTo\<close> gives it one; \<open>LineTo\<close>, \<open>QuadraticTo\<close> and \<open>CubicTo\<close> need one
  and panic without; \<open>Close\<close> ends the subpath and leaves no current point. Whether a
  \<open>Close\<close> with no current point panics too is the engine's business: the argument
  \<open>strict\<close> of \<open>pathClose\<close>.
\<close>

record PdfPath =
  pathOps :: "PdfPathOp list"
  hasCurrent :: bool

definition NewPath :: PdfPath where
  "NewPath = \<lparr>pathOps = [], hasCurrent = False\<rparr>"

definition pathMoveTo :: "real \<Rightarrow> real \<Rightarrow> PdfPath \<Rightarrow> Panic + PdfPath" where
  "pathMoveTo x y p = Inr (p\<lparr>pathOps := pathOps p @ [PdfMoveTo x y], hasCurrent := True\<rparr>)"

definition pathLineTo :: "real \<Rightarrow> real \<Rightarrow> PdfPath \<Rightarrow> Panic + PdfPath" where
  "pathLineTo x y p =
     (if hasCurrent p then Inr (p\<lparr>pathOps := pathOps p @ [PdfLineTo x y]\<rparr>)
      else Inl NoCurrentPoint)"

definition pathQuadraticTo :: "real \<Rightarrow> real \<Rightarrow> real \<Rightarrow> real \<Rightarrow> PdfPath \<Rightarrow> Panic + PdfPath" where
  "pathQuadraticTo cx cy x y p =
     (if hasCurrent p then Inr (p\<lparr>pathOps := pathOps p @ [PdfQuadraticTo cx cy x y]\<rparr>)
      else Inl NoCurrentPoint)"

definition pathCubicTo ::
  "real \<Rightarrow> real \<Rightarrow> real \<Rightarrow> real \<Rightarrow> real \<Rightarrow> real \<Rightarrow> PdfPath \<Rightarrow> Panic + PdfPath" where
  "pathCubicTo c1x c1y c2x c2y x y p =
     (if hasCurrent p then Inr (p\<lparr>pathOps := pathOps p @ [PdfCubicTo c1x c1y c2x c2y x y]\<rparr>)
      else Inl NoCurrentPoint)"

definition pathClose :: "bool \<Rightarrow> PdfPath \<Rightarrow> Panic + PdfPath" where
  "pathClose strict p =
     (if hasCurrent p then Inr (p\<lparr>pathOps := pathOps p @ [PdfClose], hasCurrent := False\<rparr>)
      else if strict then Inl NoCurrentPoint
      else Inr (p\<lparr>pathOps := pathOps p @ [PdfClose]\<rparr>))"

text \<open>
  A gradient of the engine: its geometry and the stops it accepted, in order.
  \<open>AddColorStop\<close> may refuse a stop; the adapter discards that error, and the refused
  stop is then missing. Which stops the engine refuses is the engine's business
  (the field \<open>stopRefused\<close> of the verdicts below).
\<close>

datatype Paint =
    SolidPaint Color
  | LinearPaint real real real real "(real \<times> Color) list"
  | RadialPaint real real real real real real "(real \<times> Color) list"

record Fill =
  fillPaint :: Paint
  fillOpacity :: real
  fillRule :: PdfFillRule

text \<open>
  \<open>creator.NewFill\<close>: a fill of full opacity (the adapter calls \<open>WithOpacity\<close> only below
  \<open>1.0\<close>) with the engine's default rule, which is non-zero.
\<close>

definition NewFill :: "Paint \<Rightarrow> Fill" where
  "NewFill p = \<lparr>fillPaint = p, fillOpacity = 1, fillRule = PdfNonZero\<rparr>"

definition WithOpacity :: "real \<Rightarrow> Fill \<Rightarrow> Fill" where
  "WithOpacity a f = f\<lparr>fillOpacity := a\<rparr>"

record PdfStroke =
  pdfColor :: Color
  pdfWidth :: real
  pdfLineCap :: PdfLineCap
  pdfLineJoin :: PdfLineJoin
  pdfMiterLimit :: real
  pdfDashArray :: "real list"
  pdfDashPhase :: real

text \<open>
  \<open>creator.NewStroke\<close>: \<open>translateStroke\<close> overwrites every field but the dash fields,
  which start empty.
\<close>

definition NewStroke :: "Color \<Rightarrow> PdfStroke" where
  "NewStroke c =
     \<lparr>pdfColor = c, pdfWidth = 1, pdfLineCap = PdfCapButt, pdfLineJoin = PdfJoinMiter,
      pdfMiterLimit = 10, pdfDashArray = [], pdfDashPhase = 0\<rparr>"

text \<open>
  A \<open>creator.Surface\<close>: the stack of layers that \<open>PushTransform\<close>, \<open>PushOpacity\<close> and
  \<open>PushClipPath\<close> push and \<open>Pop\<close> pops (the bottom layer first, the top layer last), the
  paint set by \<open>SetFill\<close> and \<open>SetStroke\<close>, and the drawing calls that succeeded.
\<close>

datatype Layer =
    TransformLayer Transform
  | OpacityLayer real
  | ClipLayer PdfPath PdfFillRule

datatype Drawn =
    DrawnFill PdfPath
  | DrawnStroke PdfPath
  | DrawnRect real real real real

record Surface =
  layers :: "Layer list"
  curFill :: "Fill option"
  curStroke :: "PdfStroke option"
  drawn :: "Drawn list"

definition emptySurface :: Surface where
  "emptySurface = \<lparr>layers = [], curFill = None, curStroke = None, drawn = []\<rparr>"

definition PushTransform :: "Transform \<Rightarrow> Surface \<Rightarrow> Surface" where
  "PushTransform t s = s\<lparr>layers := layers s @ [TransformLayer t]\<rparr>"

text \<open>
  \<open>Pop\<close> removes the top layer, whichever call pushed it; on a surface without layers
  the engine panics (\<open>Pop() called without matching Push*()\<close>).
\<close>

definition Pop :: "Surface \<Rightarrow> Panic + Surface" where
  "Pop s =
     (if layers s = [] then Inl PopWithoutPush
      else Inr (s\<lparr>layers := butlast (layers s)\<rparr>))"


definition PushClipPath :: "bool \<Rightarrow> PdfPath \<Rightarrow> PdfFillRule \<Rightarrow> Surface \<Rightarrow> Surface" where
  "PushClipPath err p r s = (if err then s else s\<lparr>layers := layers s @ [ClipLayer p r]\<rparr>)"

definition SetFill :: "Fill option \<Rightarrow> Surface \<Rightarrow> Surface" where
  "SetFill f s = s\<lparr>curFill := f\<rparr>"

definition SetStroke :: "PdfStroke option \<Rightarrow> Surface \<Rightarrow> Surface" where
  "SetStroke k s = s\<lparr>curStroke := k\<rparr>"

definition surfaceFillPath :: "bool \<Rightarrow> PdfPath \<Rightarrow> Surface \<Rightarrow> Surface" where
  "surfaceFillPath err p s = (if err then s else s\<lparr>drawn := drawn s @ [DrawnFill p]\<rparr>)"

definition surfaceStrokePath :: "bool \<Rightarrow> PdfPath \<Rightarrow> Surface \<Rightarrow> Surface" where
  "surfaceStrokePath err p s = (if err then s else s\<lparr>drawn := drawn s @ [DrawnStroke p]\<rparr>)"

definition surfaceDrawRect :: "bool \<Rightarrow> real \<Rightarrow> real \<Rightarrow> real \<Rightarrow> real \<Rightarrow> Surface \<Rightarrow> Surface" where
  "surfaceDrawRect err x y w h s =
     (if err then s else s\<lparr>drawn := drawn s @ [DrawnRect x y w h]\<rparr>)"

text \<open>
  The transform the engine applies to a drawn point: the product of the transform layers
  from the bottom of the stack to its top.
\<close>

fun layerTransform :: "Layer \<Rightarrow> Transform" where
  "layerTransform (TransformLayer t) = t"
| "layerTransform (OpacityLayer a) = creator_Identity"
| "layerTransform (ClipLayer p r) = creator_Identity"

definition composite :: "Layer list \<Rightarrow> Transform" where
  "composite ls = foldl Then creator_Identity (map layerTransform ls)"

text \<open>A \<open>creator.Page\<close>: the images and texts placed on it by calls that succeeded.\<close>

datatype PageItem =
    ImageItem Image real real real real
  | TextItem string real real real Color

record Page =
  items :: "PageItem list"

definition emptyPage :: Page where
  "emptyPage = \<lparr>items = []\<rparr>"


definition AddTextColor :: "bool \<Rightarrow> string \<Rightarrow> real \<Rightarrow> real \<Rightarrow> real \<Rightarrow> Color \<Rightarrow> Page \<Rightarrow> Page" where
  "AddTextColor err s x y fontSize c p =
     (if err then p else p\<lparr>items := items p @ [TextItem s x y fontSize c]\<rparr>)"

text \<open>
  A \<open>creator.Creator\<close>: the pages it has created, the metadata, and the number of
  \<open>NewPageWithSize\<close> calls it has received. Whether its \<open>k\<close>-th call fails, and with which
  error, is the engine's business: a parameter \<open>sched\<close> of the operations that create pages.
\<close>

record Creator =
  pagesCreated :: nat
  newPageCalls :: nat
  metaTitle :: string
  metaAuthor :: string
  metaSubject :: string
  metaKeywords :: string

definition creator_New :: Creator where
  "creator_New =
     \<lparr>pagesCreated = 0, newPageCalls = 0, metaTitle = [], metaAuthor = [],
      metaSubject = [], metaKeywords = []\<rparr>"

definition NewPageWithSize :: "(nat \<Rightarrow> Error option) \<Rightarrow> Creator \<Rightarrow> (Error + Page) \<times> Creator" where
  "NewPageWithSize sched c =
     (case sched (newPageCalls c) of
        Some e \<Rightarrow> (Inl e, c\<lparr>newPageCalls := Suc (newPageCalls c)\<rparr>)
      | None \<Rightarrow>
          (Inr emptyPage,
           c\<lparr>newPageCalls := Suc (newPageCalls c), pagesCreated := Suc (pagesCreated c)\<rparr>))"


section \<open>The drawing adapter: \<open>Backend\<close>\<close>

record backendState =
  transform :: Matrix

text \<open>
  The \<open>creator\<close> field of a \<open>Backend\<close> is a pointer: \<open>nil\<close>, a creator of its own (made by
  \<open>Begin\<close>), or the creator of the \<open>Document\<close> the page belongs to, whose state the
  document holds.
\<close>

datatype CreatorRef = NilCreator | OwnCreator Creator | DocumentCreator

record Backend =
  creator :: CreatorRef
  page :: "Page option"
  surface :: "Surface option"
  width :: real
  height :: real
  stateStack :: "backendState list"
  currentTransform :: Matrix

text \<open>A call on a \<open>nil\<close> page or surface is a panic of the Go runtime: \<open>NilDereference\<close>.\<close>

text \<open>The zero value of \<open>recording.Matrix\<close>, which a field left out of a struct literal holds.\<close>

definition zeroMatrix :: Matrix where
  "zeroMatrix = \<lparr>mA = 0, mB = 0, mC = 0, mD = 0, mE = 0, mF = 0\<rparr>"

definition NewBackend :: Backend where
  "NewBackend =
     \<lparr>creator = NilCreator, page = None, surface = None, width = 0, height = 0,
      stateStack = [], currentTransform = zeroMatrix\<rparr>"

definition matrixToTransform :: "Matrix \<Rightarrow> Transform" where
  "matrixToTransform m =
     \<lparr>tA = mA m, tB = mD m,
      tC = mB m, tD = mE m,
      tE = mC m, tF = mF m\<rparr>"

definition flipTransform :: "real \<Rightarrow> Transform" where
  "flipTransform h = Then (creator_Translate 0 h) (creator_Scale 1 (- 1))"

text \<open>
  \<open>Begin\<close> returns its \<open>error\<close> (\<open>None\<close> is \<open>nil\<close>) beside the receiver as it leaves it.
\<close>

definition Begin :: "(nat \<Rightarrow> Error option) \<Rightarrow> int \<Rightarrow> int \<Rightarrow> Backend \<Rightarrow> Error option \<times> Backend" where
  "Begin sched w h b =
     (let b1 = b\<lparr>width := real_of_int w, height := real_of_int h\<rparr> in
      case NewPageWithSize sched creator_New of
        (Inl err, c) \<Rightarrow>
          (Some (''pdf: failed to create page: '' @ err), b1\<lparr>creator := OwnCreator c\<rparr>)
      | (Inr pg, c) \<Rightarrow>
          (None,
           b1\<lparr>creator := OwnCreator c,
              page := Some pg,
              surface := Some (PushTransform (flipTransform (real_of_int h)) emptySurface),
              currentTransform := recording_Identity,
              stateStack := []\<rparr>))"

definition End :: "Backend \<Rightarrow> Panic + Backend" where
  "End b =
     (case surface b of
        None \<Rightarrow> Inl NilDereference
      | Some s \<Rightarrow>
          (case Pop s of
             Inl e \<Rightarrow> Inl e
           | Inr s' \<Rightarrow> Inr (b\<lparr>surface := Some s'\<rparr>)))"

definition Save :: "Backend \<Rightarrow> Panic + Backend" where
  "Save b =
     (case surface b of
        None \<Rightarrow> Inl NilDereference
      | Some s \<Rightarrow>
          Inr (b\<lparr>stateStack := stateStack b @ [\<lparr>transform = currentTransform b\<rparr>],
                 surface := Some (PushTransform creator_Identity s)\<rparr>))"

definition Restore :: "Backend \<Rightarrow> Panic + Backend" where
  "Restore b =
     (if length (stateStack b) = 0 then Inr b
      else
        (let state = last (stateStack b) in
         case surface b of
           None \<Rightarrow> Inl NilDereference
         | Some s \<Rightarrow>
             (case Pop s of
                Inl e \<Rightarrow> Inl e
              | Inr s' \<Rightarrow>
                  Inr (b\<lparr>stateStack := butlast (stateStack b),
                         currentTransform := transform state,
                         surface := Some s'\<rparr>))))"

definition SetTransform :: "Matrix \<Rightarrow> Backend \<Rightarrow> Panic + Backend" where
  "SetTransform m b =
     (let pdfTransform = matrixToTransform m in
      case surface b of
        None \<Rightarrow> Inl NilDereference
      | Some s \<Rightarrow>
          (case Pop s of
             Inl e \<Rightarrow> Inl e
           | Inr s' \<Rightarrow>
               Inr (b\<lparr>currentTransform := m,
                      surface := Some (PushTransform pdfTransform s')\<rparr>)))"


text \<open>
  The verdicts of the engine and of the PNG encoder on the fallible calls of one drawing
  operation: \<open>True\<close> is an error returned. They are arguments of the model, so that a
  statement about every verdict covers every returned error. \<open>strayClosePanics\<close> says
  whether the engine's \<open>Close\<close> panics on a path with no current point.
\<close>

record Faults =
  stopRefused :: "real \<Rightarrow> Color \<Rightarrow> bool"
  drawFails :: bool
  encodeFails :: bool
  loadFails :: bool
  opacityFails :: bool
  strayClosePanics :: bool

text \<open>
  \<open>translatePath\<close>: the loop over \<open>path.Elements()\<close>, one call of the engine's path
  builder for each element, with nothing that would catch a panic of the builder.
\<close>

fun translateElements :: "bool \<Rightarrow> PathElement list \<Rightarrow> PdfPath \<Rightarrow> Panic + PdfPath" where
  "translateElements strict [] pdfPath = Inr pdfPath"
| "translateElements strict (elem # rest) pdfPath =
     (case (case elem of
              MoveTo p \<Rightarrow> pathMoveTo (ptX p) (ptY p) pdfPath
            | LineTo p \<Rightarrow> pathLineTo (ptX p) (ptY p) pdfPath
            | QuadTo c p \<Rightarrow> pathQuadraticTo (ptX c) (ptY c) (ptX p) (ptY p) pdfPath
            | CubicTo c1 c2 p \<Rightarrow>
                pathCubicTo (ptX c1) (ptY c1) (ptX c2) (ptY c2) (ptX p) (ptY p) pdfPath
            | Close \<Rightarrow> pathClose strict pdfPath) of
        Inl e \<Rightarrow> Inl e
      | Inr pdfPath' \<Rightarrow> translateElements strict rest pdfPath')"

definition translatePath :: "bool \<Rightarrow> Path \<Rightarrow> Panic + PdfPath" where
  "translatePath strict path = translateElements strict path NewPath"

definition translateFillRule :: "FillRule \<Rightarrow> PdfFillRule" where
  "translateFillRule rule =
     (case rule of FillRuleEvenOdd \<Rightarrow> PdfEvenOdd | FillRuleNonZero \<Rightarrow> PdfNonZero)"

definition translateLineCap :: "LineCap \<Rightarrow> PdfLineCap" where
  "translateLineCap lineCap =
     (case lineCap of
        LineCapRound \<Rightarrow> PdfCapRound
      | LineCapSquare \<Rightarrow> PdfCapSquare
      | LineCapButt \<Rightarrow> PdfCapButt)"

definition translateLineJoin :: "LineJoin \<Rightarrow> PdfLineJoin" where
  "translateLineJoin join =
     (case join of
        LineJoinRound \<Rightarrow> PdfJoinRound
      | LineJoinBevel \<Rightarrow> PdfJoinBevel
      | LineJoinMiter \<Rightarrow> PdfJoinMiter)"

text \<open>
  The colour literal the source writes out at every use:
  \<open>creator.Color{R: float64(c.R) / 255.0, G: float64(c.G) / 255.0, B: float64(c.B) / 255.0}\<close>.
\<close>

definition toColor :: "RGBA \<Rightarrow> Color" where
  "toColor c = \<lparr>colR = cR c / 255, colG = cG c / 255, colB = cB c / 255\<rparr>"

text \<open>The loop over \<open>br.Stops\<close> with \<open>_ = grad.AddColorStop(stop.Offset, color)\<close>.\<close>

fun addColorStops :: "(real \<Rightarrow> Color \<Rightarrow> bool) \<Rightarrow> GradientStop list \<Rightarrow> (real \<times> Color) list" where
  "addColorStops rej [] = []"
| "addColorStops rej (stop # stops) =
     (let color = toColor (stopColor stop) in
      if rej (stopOffset stop) color then addColorStops rej stops
      else (stopOffset stop, color) # addColorStops rej stops)"

definition translateLinearGradient ::
  "(real \<Rightarrow> Color \<Rightarrow> bool) \<Rightarrow> Point \<Rightarrow> Point \<Rightarrow> GradientStop list \<Rightarrow> Fill" where
  "translateLinearGradient rej startPt endPt stops =
     NewFill (LinearPaint (ptX startPt) (ptY startPt) (ptX endPt) (ptY endPt)
                (addColorStops rej stops))"

definition translateRadialGradient ::
  "(real \<Rightarrow> Color \<Rightarrow> bool) \<Rightarrow> Point \<Rightarrow> Point \<Rightarrow> real \<Rightarrow> real \<Rightarrow> GradientStop list \<Rightarrow> Fill" where
  "translateRadialGradient rej center focus startRadius endRadius stops =
     NewFill (RadialPaint (ptX center) (ptY center) startRadius
                (ptX focus) (ptY focus) endRadius (addColorStops rej stops))"

definition translateBrushToFill :: "(real \<Rightarrow> Color \<Rightarrow> bool) \<Rightarrow> Brush \<Rightarrow> Fill" where
  "translateBrushToFill rej brush =
     (case brush of
        SolidBrush c \<Rightarrow>
          (let color = toColor c;
               fill = NewFill (SolidPaint color);
               opacity = cA c / 255
           in if opacity < 1 then WithOpacity opacity fill else fill)
      | LinearGradientBrush startPt endPt stops \<Rightarrow>
          translateLinearGradient rej startPt endPt stops
      | RadialGradientBrush center focus startRadius endRadius stops \<Rightarrow>
          translateRadialGradient rej center focus startRadius endRadius stops
      | SweepGradientBrush center startAngle stops \<Rightarrow>
          (case stops of
             stop # rest \<Rightarrow> NewFill (SolidPaint (toColor (stopColor stop)))
           | [] \<Rightarrow> NewFill (SolidPaint Black))
      | SweepGradientBrushByValue center startAngle stops \<Rightarrow> NewFill (SolidPaint Black)
      | OtherBrush \<Rightarrow> NewFill (SolidPaint Black))"

definition brushToColor :: "Brush \<Rightarrow> Color" where
  "brushToColor brush =
     (case brush of
        SolidBrush c \<Rightarrow> toColor c
      | LinearGradientBrush startPt endPt stops \<Rightarrow>
          (case stops of stop # rest \<Rightarrow> toColor (stopColor stop) | [] \<Rightarrow> Black)
      | RadialGradientBrush center focus startRadius endRadius stops \<Rightarrow>
          (case stops of stop # rest \<Rightarrow> toColor (stopColor stop) | [] \<Rightarrow> Black)
      | SweepGradientBrush center startAngle stops \<Rightarrow>
          (case stops of stop # rest \<Rightarrow> toColor (stopColor stop) | [] \<Rightarrow> Black)
      | SweepGradientBrushByValue center startAngle stops \<Rightarrow> Black
      | OtherBrush \<Rightarrow> Black)"

definition translateStroke :: "Brush \<Rightarrow> Stroke \<Rightarrow> PdfStroke" where
  "translateStroke brush stroke =
     (let color = brushToColor brush;
          s = (NewStroke color)
                \<lparr>pdfWidth := strokeWidth stroke,
                 pdfLineCap := translateLineCap (strokeCap stroke),
                 pdfLineJoin := translateLineJoin (strokeJoin stroke),
                 pdfMiterLimit := strokeMiterLimit stroke\<rparr>
      in if length (strokeDashPattern stroke) > 0
         then s\<lparr>pdfDashArray := strokeDashPattern stroke,
                pdfDashPhase := strokeDashOffset stroke\<rparr>
         else s)"

definition SetClip :: "Faults \<Rightarrow> Path \<Rightarrow> FillRule \<Rightarrow> Backend \<Rightarrow> Panic + Backend" where
  "SetClip ft path rule b =
     (case translatePath (strayClosePanics ft) path of
        Inl e \<Rightarrow> Inl e
      | Inr pdfPath \<Rightarrow>
          (let fillRule = translateFillRule rule in
           case surface b of
             None \<Rightarrow> Inl NilDereference
           | Some s \<Rightarrow>
               Inr (b\<lparr>surface := Some (PushClipPath (drawFails ft) pdfPath fillRule s)\<rparr>)))"

definition ClearClip :: "Backend \<Rightarrow> Panic + Backend" where
  "ClearClip b = Inr b"

definition FillPath :: "Faults \<Rightarrow> Path \<Rightarrow> Brush \<Rightarrow> FillRule \<Rightarrow> Backend \<Rightarrow> Panic + Backend" where
  "FillPath ft path brush rule b =
     (case translatePath (strayClosePanics ft) path of
        Inl e \<Rightarrow> Inl e
      | Inr pdfPath \<Rightarrow>
          (let fill = (translateBrushToFill (stopRefused ft) brush)
                        \<lparr>fillRule := translateFillRule rule\<rparr>
           in case surface b of
                None \<Rightarrow> Inl NilDereference
              | Some s \<Rightarrow>
                  Inr (b\<lparr>surface :=
                           Some (surfaceFillPath (drawFails ft) pdfPath
                                   (SetStroke None (SetFill (Some fill) s)))\<rparr>)))"

definition StrokePath :: "Faults \<Rightarrow> Path \<Rightarrow> Brush \<Rightarrow> Stroke \<Rightarrow> Backend \<Rightarrow> Panic + Backend" where
  "StrokePath ft path brush stroke b =
     (case translatePath (strayClosePanics ft) path of
        Inl e \<Rightarrow> Inl e
      | Inr pdfPath \<Rightarrow>
          (let pdfStroke = translateStroke brush stroke
           in case surface b of
                None \<Rightarrow> Inl NilDereference
              | Some s \<Rightarrow>
                  Inr (b\<lparr>surface :=
                           Some (surfaceStrokePath (drawFails ft) pdfPath
                                   (SetFill None (SetStroke (Some pdfStroke) s)))\<rparr>)))"

definition FillRect :: "Faults \<Rightarrow> Rect \<Rightarrow> Brush \<Rightarrow> Backend \<Rightarrow> Panic + Backend" where
  "FillRect ft rect brush b =
     (let fill = translateBrushToFill (stopRefused ft) brush in
      case surface b of
        None \<Rightarrow> Inl NilDereference
      | Some s \<Rightarrow>
          Inr (b\<lparr>surface :=
                   Some (surfaceDrawRect (drawFails ft)
                           (MinX rect) (MinY rect) (rectWidth rect) (rectHeight rect)
                           (SetStroke None (SetFill (Some fill) s)))\<rparr>))"


definition DrawText ::
  "Faults \<Rightarrow> string \<Rightarrow> real \<Rightarrow> real \<Rightarrow> Face option \<Rightarrow> Brush \<Rightarrow> Backend \<Rightarrow> Panic + Backend" where
  "DrawText ft s x y face brush b =
     (let color = brushToColor brush;
          fontSize =
            (case face of
               None \<Rightarrow> 12
             | Some f \<Rightarrow>
                 if faceSize f \<le> 0
                 then (if faceLineHeight f \<le> 0 then 12 else faceLineHeight f)
                 else faceSize f)
      in case page b of
           None \<Rightarrow> Inl NilDereference
         | Some pg \<Rightarrow> Inr (b\<lparr>page := Some (AddTextColor (drawFails ft) s x y fontSize color pg)\<rparr>))"


section \<open>The multi-page coordinator: \<open>Document\<close>\<close>

text \<open>
  \<open>pages\<close> holds the page backends in the order of their creation, each as \<open>NewPage\<close>
  left it; drawing on a page goes through the backend \<open>NewPage\<close> returned.
\<close>

record Document =
  docCreator :: Creator
  pages :: "Backend list"
  finished :: bool

definition NewDocument :: Document where
  "NewDocument = \<lparr>docCreator = creator_New, pages = [], finished = False\<rparr>"

text \<open>\<open>NewPage\<close> has no \<open>error\<close> result: it returns the backend, beside the document as it leaves it.\<close>

definition NewPage :: "(nat \<Rightarrow> Error option) \<Rightarrow> int \<Rightarrow> int \<Rightarrow> Document \<Rightarrow> Backend \<times> Document" where
  "NewPage sched w h d =
     (let pb = \<lparr>creator = DocumentCreator, page = None, surface = None,
                width = real_of_int w, height = real_of_int h,
                stateStack = [], currentTransform = zeroMatrix\<rparr> in
      case NewPageWithSize sched (docCreator d) of
        (Inl err, c) \<Rightarrow> (pb, d\<lparr>docCreator := c\<rparr>)
      | (Inr pg, c) \<Rightarrow>
          (let pb' = pb\<lparr>page := Some pg,
                        surface := Some (PushTransform (flipTransform (real_of_int h)) emptySurface),
                        currentTransform := recording_Identity\<rparr>
           in (pb', d\<lparr>docCreator := c, pages := pages d @ [pb']\<rparr>)))"

definition PageCount :: "Document \<Rightarrow> nat" where
  "PageCount d = length (pages d)"

text \<open>The loop of \<open>Finish\<close> over the pages: one \<open>Pop\<close> on each surface that is not \<open>nil\<close>.\<close>

fun finishPages :: "Backend list \<Rightarrow> Panic + Backend list" where
  "finishPages [] = Inr []"
| "finishPages (pb # pbs) =
     (case (case surface pb of
              None \<Rightarrow> Inr pb
            | Some s \<Rightarrow>
                (case Pop s of
                   Inl e \<Rightarrow> Inl e
                 | Inr s' \<Rightarrow> Inr (pb\<lparr>surface := Some s'\<rparr>))) of
        Inl e \<Rightarrow> Inl e
      | Inr pb' \<Rightarrow>
          (case finishPages pbs of
             Inl e \<Rightarrow> Inl e
           | Inr pbs' \<Rightarrow> Inr (pb' # pbs')))"

definition Finish :: "Document \<Rightarrow> Panic + Document" where
  "Finish d =
     (if finished d then Inr d
      else
        (case finishPages (pages d) of
           Inl e \<Rightarrow> Inl e
         | Inr pbs \<Rightarrow> Inr (d\<lparr>pages := pbs, finished := True\<rparr>)))"

definition SetTitle :: "string \<Rightarrow> Document \<Rightarrow> Document" where
  "SetTitle title d = d\<lparr>docCreator := (docCreator d)\<lparr>metaTitle := title\<rparr>\<rparr>"

definition SetAuthor :: "string \<Rightarrow> Document \<Rightarrow> Document" where
  "SetAuthor author d = d\<lparr>docCreator := (docCreator d)\<lparr>metaAuthor := author\<rparr>\<rparr>"

definition SetSubject :: "string \<Rightarrow> Document \<Rightarrow> Document" where
  "SetSubject subject d = d\<lparr>docCreator := (docCreator d)\<lparr>metaSubject := subject\<rparr>\<rparr>"

definition SetKeywords :: "string \<Rightarrow> Document \<Rightarrow> Document" where
  "SetKeywords keywords d = d\<lparr>docCreator := (docCreator d)\<lparr>metaKeywords := keywords\<rparr>\<rparr>"


section \<open>Replaying commands\<close>

text \<open>
  The host replays a recording by calling the adapter once per command, in order. The
  state commands, and the replay of a list of them; a panic ends the replay.
\<close>

datatype Cmd = CmdSave | CmdRestore | CmdSetTransform Matrix

fun exec :: "Cmd \<Rightarrow> Backend \<Rightarrow> Panic + Backend" where
  "exec CmdSave b = Save b"
| "exec CmdRestore b = Restore b"
| "exec (CmdSetTransform m) b = SetTransform m b"

fun run :: "Cmd list \<Rightarrow> Backend \<Rightarrow> Panic + Backend" where
  "run [] b = Inr b"
| "run (c # cs) b = (case exec c b of Inl e \<Rightarrow> Inl e | Inr b' \<Rightarrow> run cs b')"

text \<open>
  The number of unmatched \<open>Save\<close> calls of a command list, as the spec words it: a
  \<open>Save\<close> opens a scope, a \<open>Restore\<close> closes the innermost open scope, and a \<open>Restore\<close>
  with no scope open matches nothing. \<open>unmatchedFrom n\<close> starts with \<open>n\<close> scopes open.
\<close>

fun unmatchedFrom :: "nat \<Rightarrow> Cmd list \<Rightarrow> nat" where
  "unmatchedFrom n [] = n"
| "unmatchedFrom n (CmdSave # cs) = unmatchedFrom (Suc n) cs"
| "unmatchedFrom n (CmdRestore # cs) = unmatchedFrom (n - 1) cs"
| "unmatchedFrom n (CmdSetTransform m # cs) = unmatchedFrom n cs"

definition unmatchedSaves :: "Cmd list \<Rightarrow> nat" where
  "unmatchedSaves cs = unmatchedFrom 0 cs"

text \<open>What the engine holds for a backend: the depth of its layer stack, its composite transform.\<close>

definition engineLayers :: "Backend \<Rightarrow> Layer list" where
  "engineLayers b = (case surface b of None \<Rightarrow> [] | Some s \<Rightarrow> layers s)"

definition engineDepth :: "Backend \<Rightarrow> nat" where
  "engineDepth b = length (engineLayers b)"

definition engineTransform :: "Backend \<Rightarrow> Transform" where
  "engineTransform b = composite (engineLayers b)"

text \<open>
  What a call that returned left behind, read through \<open>f\<close>; \<open>None\<close> when the call
  panicked instead of returning.
\<close>

definition returns :: "(Backend \<Rightarrow> 'a) \<Rightarrow> Panic + Backend \<Rightarrow> 'a option" where
  "returns f r = (case r of Inl e \<Rightarrow> None | Inr b \<Rightarrow> Some (f b))"

definition stackDepth :: "Backend \<Rightarrow> nat" where
  "stackDepth b = length (stateStack b)"

definition engineFill :: "Backend \<Rightarrow> Fill option" where
  "engineFill b = (case surface b of None \<Rightarrow> None | Some s \<Rightarrow> curFill s)"

text \<open>
  A command list that closes exactly the scopes it opens, beside \<open>k\<close> scopes that are
  open when it starts: what lies between a \<open>Save\<close> and the \<open>Restore\<close> matching it is such
  a list with \<open>k = 0\<close>.
\<close>

fun closes :: "nat \<Rightarrow> Cmd list \<Rightarrow> bool" where
  "closes k [] = (k = 0)"
| "closes k (CmdSave # cs) = closes (Suc k) cs"
| "closes k (CmdRestore # cs) = (0 < k \<and> closes (k - 1) cs)"
| "closes k (CmdSetTransform m # cs) = closes k cs"

definition balanced :: "Cmd list \<Rightarrow> bool" where
  "balanced cs = closes 0 cs"




text \<open>
  A path in which every \<open>LineTo\<close>, \<open>QuadTo\<close>, \<open>CubicTo\<close> and \<open>Close\<close> finds a current point:
  \<open>cur\<close> says whether there is one at the start. A drawing command is free of stray
  segments when its path, if it has one, is such a path from no current point.
\<close>

fun hasPoints :: "bool \<Rightarrow> Path \<Rightarrow> bool" where
  "hasPoints cur [] = True"
| "hasPoints cur (MoveTo p # es) = hasPoints True es"
| "hasPoints cur (LineTo p # es) = (cur \<and> hasPoints True es)"
| "hasPoints cur (QuadTo c p # es) = (cur \<and> hasPoints True es)"
| "hasPoints cur (CubicTo c1 c2 p # es) = (cur \<and> hasPoints True es)"
| "hasPoints cur (Close # es) = (cur \<and> hasPoints False es)"


text \<open>The calls on a document that add pages or set metadata, and a sequence of them.\<close>

datatype DocCmd =
    CmdNewPage int int
  | CmdSetTitle string
  | CmdSetAuthor string
  | CmdSetSubject string
  | CmdSetKeywords string

fun docExec :: "(nat \<Rightarrow> Error option) \<Rightarrow> DocCmd \<Rightarrow> Document \<Rightarrow> Document" where
  "docExec sched (CmdNewPage w h) d = snd (NewPage sched w h d)"
| "docExec sched (CmdSetTitle t) d = SetTitle t d"
| "docExec sched (CmdSetAuthor t) d = SetAuthor t d"
| "docExec sched (CmdSetSubject t) d = SetSubject t d"
| "docExec sched (CmdSetKeywords t) d = SetKeywords t d"

fun docRun :: "(nat \<Rightarrow> Error option) \<Rightarrow> DocCmd list \<Rightarrow> Document \<Rightarrow> Document" where
  "docRun sched [] d = d"
| "docRun sched (c # cs) d = docRun sched cs (docExec sched c d)"

fun isNewPage :: "DocCmd \<Rightarrow> bool" where
  "isNewPage (CmdNewPage w h) = True"
| "isNewPage c = False"

definition newPageCount :: "DocCmd list \<Rightarrow> nat" where
  "newPageCount cs = length (filter isNewPage cs)"

text \<open>
  The number of \<open>NewPage\<close> calls of a sequence whose page the engine creates, when the
  first of them is the engine's call number \<open>k\<close>.
\<close>

fun createdFrom :: "(nat \<Rightarrow> Error option) \<Rightarrow> nat \<Rightarrow> DocCmd list \<Rightarrow> nat" where
  "createdFrom sched k [] = 0"
| "createdFrom sched k (CmdNewPage w h # cs) =
     (case sched k of None \<Rightarrow> Suc (createdFrom sched (Suc k) cs)
                    | Some e \<Rightarrow> createdFrom sched (Suc k) cs)"
| "createdFrom sched k (c # cs) = createdFrom sched k cs"

text \<open>Two engines: one that creates every page, one that fails every creation with \<open>e\<close>.\<close>

definition neverFails :: "nat \<Rightarrow> Error option" where
  "neverFails k = None"

definition alwaysFails :: "Error \<Rightarrow> nat \<Rightarrow> Error option" where
  "alwaysFails e k = Some e"

definition noFaults :: Faults where
  "noFaults =
     \<lparr>stopRefused = (\<lambda>off c. False), drawFails = False, encodeFails = False,
      loadFails = False, opacityFails = False, strayClosePanics = False\<rparr>"

text \<open>
  A backend on which \<open>Begin\<close> has succeeded and only state commands have run since: it has
  a surface, and the engine's stack is one layer deeper than the state stack.
\<close>

definition begun :: "Backend \<Rightarrow> bool" where
  "begun b =
     (case surface b of
        None \<Rightarrow> False
      | Some s \<Rightarrow> length (layers s) = Suc (length (stateStack b)))"

text \<open>Concrete inputs: the page of the tests, the verdicts that fail every call, two engines, two stops.\<close>

definition page800 :: Backend where
  "page800 = snd (Begin neverFails 800 600 NewBackend)"



definition failsOnce :: "nat \<Rightarrow> Error option" where
  "failsOnce k = (if k = 0 then Some ''disk full'' else None)"

text \<open>The stops \<open>(0, red)\<close> and \<open>(1, green)\<close>, in the host's colours.\<close>

definition redGreenStops :: "GradientStop list" where
  "redGreenStops =
     [\<lparr>stopOffset = 0, stopColor = \<lparr>cR = 1, cG = 0, cB = 0, cA = 1\<rparr>\<rparr>,
      \<lparr>stopOffset = 1, stopColor = \<lparr>cR = 0, cG = 1, cB = 0, cA = 1\<rparr>\<rparr>]"

text \<open>A triangle as the tests draw it, and the image command used below.\<close>

definition trianglePath :: Path where
  "trianglePath =
     [MoveTo \<lparr>ptX = 100, ptY = 50\<rparr>, LineTo \<lparr>ptX = 150, ptY = 150\<rparr>,
      LineTo \<lparr>ptX = 50, ptY = 150\<rparr>, Close]"



section \<open>What the state operations do\<close>

text \<open>Each state operation on a backend that has a surface, written out.\<close>

lemma Save_ok:
  "surface b = Some s \<Longrightarrow>
   Save b = Inr (b\<lparr>stateStack := stateStack b @ [\<lparr>transform = currentTransform b\<rparr>],
                    surface := Some (s\<lparr>layers := layers s @ [TransformLayer creator_Identity]\<rparr>)\<rparr>)"
  by (simp add: Save_def PushTransform_def)

lemma Restore_empty: "stateStack b = [] \<Longrightarrow> Restore b = Inr b"
  by (simp add: Restore_def)

lemma Restore_ok:
  "surface b = Some s \<Longrightarrow> stateStack b \<noteq> [] \<Longrightarrow> layers s \<noteq> [] \<Longrightarrow>
   Restore b = Inr (b\<lparr>stateStack := butlast (stateStack b),
                       currentTransform := transform (last (stateStack b)),
                       surface := Some (s\<lparr>layers := butlast (layers s)\<rparr>)\<rparr>)"
  by (simp add: Restore_def Pop_def)

lemma SetTransform_ok:
  "surface b = Some s \<Longrightarrow> layers s \<noteq> [] \<Longrightarrow>
   SetTransform m b = Inr (b\<lparr>currentTransform := m,
                            surface := Some (s\<lparr>layers := butlast (layers s) @ [TransformLayer (matrixToTransform m)]\<rparr>)\<rparr>)"
  by (simp add: SetTransform_def PushTransform_def Pop_def)

lemma Begin_ok:
  "sched 0 = None \<Longrightarrow>
   Begin sched w h b =
     (None, b\<lparr>width := real_of_int w, height := real_of_int h,
              creator := OwnCreator (creator_New\<lparr>newPageCalls := 1, pagesCreated := 1\<rparr>),
              page := Some emptyPage,
              surface := Some (emptySurface\<lparr>layers := [TransformLayer (flipTransform (real_of_int h))]\<rparr>),
              currentTransform := recording_Identity,
              stateStack := []\<rparr>)"
  by (simp add: Begin_def NewPageWithSize_def creator_New_def PushTransform_def emptySurface_def Let_def)

lemma Begin_fails:
  "sched 0 = Some e \<Longrightarrow>
   Begin sched w h b =
     (Some (''pdf: failed to create page: '' @ e),
      b\<lparr>width := real_of_int w, height := real_of_int h,
        creator := OwnCreator (creator_New\<lparr>newPageCalls := 1\<rparr>)\<rparr>)"
  by (simp add: Begin_def NewPageWithSize_def creator_New_def Let_def)

lemma Begin_None_iff: "fst (Begin sched w h b) = None \<longleftrightarrow> sched 0 = None"
  by (cases "sched 0") (simp_all add: Begin_ok Begin_fails)

lemma Begin_begun:
  "fst (Begin sched w h b0) = None \<Longrightarrow> begun (snd (Begin sched w h b0)) \<and> stateStack (snd (Begin sched w h b0)) = []"
  by (simp add: Begin_None_iff Begin_ok begun_def)

text \<open>The replay of state commands never panics on a begun backend, and keeps it begun.\<close>

lemma exec_begun:
  assumes "begun b"
  shows "\<exists>b'. exec c b = Inr b' \<and> begun b'
           \<and> length (stateStack b') = unmatchedFrom (length (stateStack b)) [c]"
proof -
  from assms obtain s where s: "surface b = Some s"
    and d: "length (layers s) = Suc (length (stateStack b))"
    by (auto simp: begun_def split: option.splits)
  have ne: "layers s \<noteq> []" using d by auto
  show ?thesis
  proof (cases c)
    case CmdSave
    then show ?thesis using d by (simp add: Save_ok [OF s] begun_def)
  next
    case CmdRestore
    show ?thesis
    proof (cases "stateStack b = []")
      case True
      then show ?thesis using CmdRestore assms by (simp add: Restore_empty)
    next
      case False
      then show ?thesis using CmdRestore d by (simp add: Restore_ok [OF s False ne] begun_def)
    qed
  next
    case (CmdSetTransform m)
    then show ?thesis using d ne by (simp add: SetTransform_ok [OF s ne] begun_def)
  qed
qed

lemma unmatchedFrom_single: "unmatchedFrom (unmatchedFrom n [c]) cs = unmatchedFrom n (c # cs)"
  by (cases c) simp_all

lemma run_begun:
  "begun b \<Longrightarrow> \<exists>b'. run cs b = Inr b' \<and> begun b' \<and> length (stateStack b') = unmatchedFrom (length (stateStack b)) cs"
proof (induction cs arbitrary: b)
  case Nil
  then show ?case by simp
next
  case (Cons c cs)
  from exec_begun [OF Cons.prems, of c] obtain b1 where
    e: "exec c b = Inr b1" and g: "begun b1"
    and l: "length (stateStack b1) = unmatchedFrom (length (stateStack b)) [c]"
    by blast
  from Cons.IH [OF g] obtain b' where
    r: "run cs b1 = Inr b'" and g': "begun b'"
    and l': "length (stateStack b') = unmatchedFrom (length (stateStack b1)) cs"
    by blast
  show ?case using e r g' l' l by (simp add: unmatchedFrom_single)
qed

lemma run_append:
  "run (xs @ ys) b = (case run xs b of Inl e \<Rightarrow> Inl e | Inr b' \<Rightarrow> run ys b')"
  by (induction xs arbitrary: b) (simp_all split: sum.splits)

text \<open>
  A list that closes the scopes it opens leaves the state stack below those scopes as it
  was; so a \<open>Save\<close>, such a list and a \<open>Restore\<close> bring back stack and transform.
\<close>

lemma run_closes:
  "closes k cs \<Longrightarrow> surface b = Some s \<Longrightarrow> k < length (layers s) \<Longrightarrow>
   stateStack b = base @ ext \<Longrightarrow> length ext = k \<Longrightarrow>
   \<exists>b' s'. run cs b = Inr b' \<and> surface b' = Some s' \<and> layers s' \<noteq> [] \<and> stateStack b' = base"
proof (induction cs arbitrary: k b s ext)
  case Nil
  then show ?case by auto
next
  case (Cons c cs)
  have ne: "layers s \<noteq> []" using Cons.prems(3) by auto
  show ?case
  proof (cases c)
    case CmdSave
    have c1: "closes (Suc k) cs" using Cons.prems(1) CmdSave by simp
    let ?s1 = "s\<lparr>layers := layers s @ [TransformLayer creator_Identity]\<rparr>"
    let ?b1 = "b\<lparr>stateStack := stateStack b @ [\<lparr>transform = currentTransform b\<rparr>],
                 surface := Some ?s1\<rparr>"
    have e: "Save b = Inr ?b1" by (rule Save_ok [OF Cons.prems(2)])
    have "\<exists>b' s'. run cs ?b1 = Inr b' \<and> surface b' = Some s' \<and> layers s' \<noteq> []
            \<and> stateStack b' = base"
      by (rule Cons.IH [OF c1, where s = ?s1 and ext = "ext @ [\<lparr>transform = currentTransform b\<rparr>]"])
         (simp_all add: Cons.prems)
    then show ?thesis using e CmdSave by simp
  next
    case CmdRestore
    have k: "0 < k" and c1: "closes (k - 1) cs" using Cons.prems(1) CmdRestore by simp_all
    have nx: "ext \<noteq> []" using k Cons.prems(5) by auto
    then have ne': "stateStack b \<noteq> []" using Cons.prems(4) by simp
    let ?s1 = "s\<lparr>layers := butlast (layers s)\<rparr>"
    let ?b1 = "b\<lparr>stateStack := butlast (stateStack b),
                 currentTransform := transform (last (stateStack b)),
                 surface := Some ?s1\<rparr>"
    have e: "Restore b = Inr ?b1" by (rule Restore_ok [OF Cons.prems(2) ne' ne])
    have "\<exists>b' s'. run cs ?b1 = Inr b' \<and> surface b' = Some s' \<and> layers s' \<noteq> []
            \<and> stateStack b' = base"
      by (rule Cons.IH [OF c1, where s = ?s1 and ext = "butlast ext"])
         (use Cons.prems k nx in \<open>simp_all add: butlast_append\<close>)
    then show ?thesis using e CmdRestore by simp
  next
    case (CmdSetTransform m)
    have c1: "closes k cs" using Cons.prems(1) CmdSetTransform by simp
    let ?s1 = "s\<lparr>layers := butlast (layers s) @ [TransformLayer (matrixToTransform m)]\<rparr>"
    let ?b1 = "b\<lparr>currentTransform := m, surface := Some ?s1\<rparr>"
    have e: "SetTransform m b = Inr ?b1" by (rule SetTransform_ok [OF Cons.prems(2) ne])
    have "\<exists>b' s'. run cs ?b1 = Inr b' \<and> surface b' = Some s' \<and> layers s' \<noteq> []
            \<and> stateStack b' = base"
      by (rule Cons.IH [OF c1, where s = ?s1 and ext = ext])
         (use Cons.prems ne in simp_all)
    then show ?thesis using e CmdSetTransform by simp
  qed
qed

lemma closes_SetTransforms: "closes k (map CmdSetTransform ts) = (k = 0)"
  by (induction ts) simp_all

lemma scope_restores:
  assumes "surface b = Some s" and "closes 0 mid"
  shows "\<exists>b'. run (CmdSave # mid @ [CmdRestore]) b = Inr b' \<and> surface b' \<noteq> None
           \<and> stateStack b' = stateStack b \<and> currentTransform b' = currentTransform b"
proof -
  let ?top = "\<lparr>transform = currentTransform b\<rparr>"
  let ?s1 = "s\<lparr>layers := layers s @ [TransformLayer creator_Identity]\<rparr>"
  let ?b1 = "b\<lparr>stateStack := stateStack b @ [?top], surface := Some ?s1\<rparr>"
  have e1: "Save b = Inr ?b1" by (rule Save_ok [OF assms(1)])
  have "\<exists>b2 s2. run mid ?b1 = Inr b2 \<and> surface b2 = Some s2 \<and> layers s2 \<noteq> []
          \<and> stateStack b2 = stateStack b @ [?top]"
    by (rule run_closes [OF assms(2), where s = ?s1 and ext = "[]"]) simp_all
  then obtain b2 s2 where e2: "run mid ?b1 = Inr b2" and s2: "surface b2 = Some s2"
    and l2: "layers s2 \<noteq> []" and st2: "stateStack b2 = stateStack b @ [?top]" by auto
  have ne: "stateStack b2 \<noteq> []" using st2 by simp
  have e3: "run (mid @ [CmdRestore]) ?b1 = Restore b2"
    by (simp add: run_append e2 split: sum.splits)
  show ?thesis
    using e1 e3 Restore_ok [OF s2 ne l2] st2 by simp
qed

text \<open>The page of the tests, 800 by 600, right after \<open>Begin\<close>.\<close>

lemma page800_surface:
  "surface page800 = Some (emptySurface\<lparr>layers := [TransformLayer (flipTransform 600)]\<rparr>)"
  by (simp add: page800_def Begin_ok neverFails_def)

lemma page800_page: "page page800 = Some emptyPage"
  by (simp add: page800_def Begin_ok neverFails_def)

lemma page800_state: "stateStack page800 = [] \<and> currentTransform page800 = recording_Identity"
  by (simp add: page800_def Begin_ok neverFails_def)

lemma composite_single: "composite [TransformLayer t] = Then creator_Identity t"
  by (simp add: composite_def)

text \<open>The engine's path builder accepts a path in which every segment finds a current point.\<close>

lemma translateElements_ok:
  "hasPoints (hasCurrent p) es \<Longrightarrow> \<exists>p'. translateElements strict es p = Inr p'"
proof (induction es arbitrary: p)
  case Nil
  then show ?case by simp
next
  case (Cons elem es)
  show ?case
  proof (cases elem)
    case (MoveTo q)
    then show ?thesis
      using Cons.prems Cons.IH [of "p\<lparr>pathOps := pathOps p @ [PdfMoveTo (ptX q) (ptY q)],
                                      hasCurrent := True\<rparr>"]
      by (simp add: pathMoveTo_def)
  next
    case (LineTo q)
    then show ?thesis
      using Cons.prems Cons.IH [of "p\<lparr>pathOps := pathOps p @ [PdfLineTo (ptX q) (ptY q)]\<rparr>"]
      by (simp add: pathLineTo_def)
  next
    case (QuadTo c q)
    then show ?thesis
      using Cons.prems
        Cons.IH [of "p\<lparr>pathOps := pathOps p @ [PdfQuadraticTo (ptX c) (ptY c) (ptX q) (ptY q)]\<rparr>"]
      by (simp add: pathQuadraticTo_def)
  next
    case (CubicTo c1 c2 q)
    then show ?thesis
      using Cons.prems
        Cons.IH [of "p\<lparr>pathOps := pathOps p @
                        [PdfCubicTo (ptX c1) (ptY c1) (ptX c2) (ptY c2) (ptX q) (ptY q)]\<rparr>"]
      by (simp add: pathCubicTo_def)
  next
    case Close
    then show ?thesis
      using Cons.prems
        Cons.IH [of "p\<lparr>pathOps := pathOps p @ [PdfClose], hasCurrent := False\<rparr>"]
      by (simp add: pathClose_def)
  qed
qed

lemma translatePath_ok: "hasPoints False path \<Longrightarrow> \<exists>p. translatePath strict path = Inr p"
  using translateElements_ok [of NewPath path strict] by (simp add: translatePath_def NewPath_def)

lemma trianglePath_hasPoints: "hasPoints False trianglePath"
  by (simp add: trianglePath_def)

text \<open>The drawing operations on a backend that has a surface and a page, written out.\<close>

lemma FillPath_ok:
  "surface b = Some s \<Longrightarrow> translatePath (strayClosePanics ft) path = Inr pdfPath \<Longrightarrow>
   FillPath ft path brush rule b =
     Inr (b\<lparr>surface := Some (surfaceFillPath (drawFails ft) pdfPath
            (s\<lparr>curFill := Some ((translateBrushToFill (stopRefused ft) brush)
                                  \<lparr>fillRule := translateFillRule rule\<rparr>),
               curStroke := None\<rparr>))\<rparr>)"
  by (simp add: FillPath_def SetFill_def SetStroke_def Let_def)

lemma curFill_surfaceFillPath: "curFill (surfaceFillPath err p s) = curFill s"
  by (simp add: surfaceFillPath_def)

lemma StrokePath_ok:
  "surface b = Some s \<Longrightarrow> translatePath (strayClosePanics ft) path = Inr pdfPath \<Longrightarrow>
   StrokePath ft path brush stroke b =
     Inr (b\<lparr>surface := Some (surfaceStrokePath (drawFails ft) pdfPath
            (s\<lparr>curStroke := Some (translateStroke brush stroke), curFill := None\<rparr>))\<rparr>)"
  by (simp add: StrokePath_def SetFill_def SetStroke_def Let_def)

lemma FillRect_ok:
  "surface b = Some s \<Longrightarrow>
   FillRect ft rect brush b =
     Inr (b\<lparr>surface := Some (surfaceDrawRect (drawFails ft)
            (MinX rect) (MinY rect) (rectWidth rect) (rectHeight rect)
            (s\<lparr>curFill := Some (translateBrushToFill (stopRefused ft) brush),
               curStroke := None\<rparr>))\<rparr>)"
  by (simp add: FillRect_def SetFill_def SetStroke_def Let_def)

lemma DrawText_ok:
  "page b = Some pg \<Longrightarrow> \<exists>pg'. DrawText ft t x y face brush b = Inr (b\<lparr>page := Some pg'\<rparr>)"
  by (simp add: DrawText_def Let_def) blast



text \<open>\<open>NewPage\<close> in its two cases, and the page count of a sequence of document calls.\<close>

lemma NewPage_fails:
  "sched (newPageCalls (docCreator d)) = Some e \<Longrightarrow>
   NewPage sched w h d =
     (\<lparr>creator = DocumentCreator, page = None, surface = None,
       width = real_of_int w, height = real_of_int h,
       stateStack = [], currentTransform = zeroMatrix\<rparr>,
      d\<lparr>docCreator := (docCreator d)\<lparr>newPageCalls := Suc (newPageCalls (docCreator d))\<rparr>\<rparr>)"
  by (simp add: NewPage_def NewPageWithSize_def Let_def)

lemma NewPage_ok:
  "sched (newPageCalls (docCreator d)) = None \<Longrightarrow>
   snd (NewPage sched w h d) =
      d\<lparr>docCreator := (docCreator d)\<lparr>newPageCalls := Suc (newPageCalls (docCreator d)),
                                     pagesCreated := Suc (pagesCreated (docCreator d))\<rparr>,
        pages := pages d @ [fst (NewPage sched w h d)]\<rparr>"
  by (simp add: NewPage_def NewPageWithSize_def Let_def)

lemma docExec_count:
  "PageCount (docExec sched c d) + createdFrom sched (newPageCalls (docCreator (docExec sched c d))) cs
     = PageCount d + createdFrom sched (newPageCalls (docCreator d)) (c # cs)"
proof (cases c)
  case (CmdNewPage w h)
  show ?thesis
  proof (cases "sched (newPageCalls (docCreator d))")
    case None
    then show ?thesis using CmdNewPage by (simp add: NewPage_ok PageCount_def)
  next
    case (Some e)
    then show ?thesis using CmdNewPage by (simp add: NewPage_fails PageCount_def)
  qed
qed (simp_all add: SetTitle_def SetAuthor_def SetSubject_def SetKeywords_def PageCount_def)

lemma docRun_count:
  "PageCount (docRun sched cs d) = PageCount d + createdFrom sched (newPageCalls (docCreator d)) cs"
proof (induction cs arbitrary: d)
  case Nil
  then show ?case by simp
next
  case (Cons c cs)
  show ?case using Cons.IH [of "docExec sched c d"] docExec_count [of sched c d cs] by simp
qed

lemma NewDocument_fresh:
  "PageCount NewDocument = 0 \<and> newPageCalls (docCreator NewDocument) = 0"
  by (simp add: NewDocument_def creator_New_def PageCount_def)

lemma createdFrom_neverFails: "createdFrom neverFails k cs = newPageCount cs"
  by (induction neverFails k cs rule: createdFrom.induct) (simp_all add: newPageCount_def neverFails_def)


section \<open>The flip transform under \<open>SetTransform\<close>\<close>

text \<open>
  C1. The spec asks that the engine's composite transform always is the flip with the
  current user transform on top of it, so that after \<open>Begin\<close> and
  \<open>SetTransform(Identity)\<close> a point \<open>(x, y)\<close> lands at \<open>(x, height - y)\<close>. On the page
  of 800 by 600 the point \<open>(10, 20)\<close> lands at \<open>(10, 580)\<close> right after \<open>Begin\<close>; but
  \<open>SetTransform\<close> with no \<open>Save\<close> open pops the flip layer itself, the engine is left with the
  identity alone, and the point lands at \<open>(10, 20)\<close>.
\<close>

theorem SetTransform_drops_flip:
  "applyTransform (engineTransform page800) (10, 20) = (10, 580)
   \<and> returns (\<lambda>b. applyTransform (engineTransform b) (10, 20))
        (SetTransform recording_Identity page800) = Some (10, 20)
   \<and> returns engineLayers (SetTransform recording_Identity page800)
        = Some [TransformLayer creator_Identity]"
  by (simp add: SetTransform_ok [OF page800_surface] returns_def engineTransform_def
        engineLayers_def page800_surface composite_single emptySurface_def flipTransform_def
        Then_def creator_Identity_def creator_Translate_def creator_Scale_def applyTransform_def
        matrixToTransform_def recording_Identity_def)


section \<open>Depth of the engine's stack\<close>

text \<open>
  C2. After a successful \<open>Begin\<close> and any sequence of \<open>Save\<close>, \<open>Restore\<close> and
  \<open>SetTransform\<close> calls, the replay returns and the engine's stack has one layer more than
  there are unmatched \<open>Save\<close> calls. In the state reached, \<open>Save\<close> adds exactly one layer,
  the identity; \<open>Restore\<close> removes exactly one layer when the state stack is not empty
  and none when it is; \<open>SetTransform\<close> replaces the top layer by the converted matrix and
  leaves the depth as it is.
\<close>

theorem engine_depth_invariant:
  assumes "fst (Begin sched w h b0) = None"
  shows "\<exists>b. run cs (snd (Begin sched w h b0)) = Inr b
      \<and> engineDepth b = 1 + unmatchedSaves cs
      \<and> returns engineLayers (Save b) = Some (engineLayers b @ [TransformLayer creator_Identity])
      \<and> returns engineDepth (Save b) = Some (engineDepth b + 1)
      \<and> returns (\<lambda>b'. engineDepth b' + (if stateStack b = [] then 0 else 1)) (Restore b)
          = Some (engineDepth b)
      \<and> (\<forall>m. returns engineLayers (SetTransform m b)
               = Some (butlast (engineLayers b) @ [TransformLayer (matrixToTransform m)]))
      \<and> (\<forall>m. returns engineDepth (SetTransform m b) = Some (engineDepth b))"
proof -
  let ?B = "snd (Begin sched w h b0)"
  from Begin_begun [OF assms] have g0: "begun ?B" and e0: "stateStack ?B = []" by simp_all
  from run_begun [OF g0, of cs] obtain b where
    r: "run cs ?B = Inr b" and g: "begun b"
    and l: "length (stateStack b) = unmatchedFrom (length (stateStack ?B)) cs" by blast
  from g obtain s where s: "surface b = Some s"
    and d: "length (layers s) = Suc (length (stateStack b))"
    by (auto simp: begun_def split: option.splits)
  have ne: "layers s \<noteq> []" using d by auto
  have 1: "engineDepth b = 1 + unmatchedSaves cs"
    using l e0 s d by (simp add: engineDepth_def engineLayers_def unmatchedSaves_def)
  have 2: "returns engineLayers (Save b) = Some (engineLayers b @ [TransformLayer creator_Identity])"
    by (simp add: Save_ok [OF s] returns_def engineLayers_def s)
  have 3: "returns engineDepth (Save b) = Some (engineDepth b + 1)"
    by (simp add: Save_ok [OF s] returns_def engineDepth_def engineLayers_def s)
  have 4: "returns (\<lambda>b'. engineDepth b' + (if stateStack b = [] then 0 else 1)) (Restore b)
          = Some (engineDepth b)"
  proof (cases "stateStack b = []")
    case True
    then show ?thesis by (simp add: Restore_empty returns_def)
  next
    case False
    then show ?thesis
      using ne by (simp add: Restore_ok [OF s False ne] returns_def engineDepth_def engineLayers_def s)
  qed
  have 5: "\<forall>m. returns engineLayers (SetTransform m b)
               = Some (butlast (engineLayers b) @ [TransformLayer (matrixToTransform m)])"
    by (simp add: SetTransform_ok [OF s ne] returns_def engineLayers_def s)
  have 6: "\<forall>m. returns engineDepth (SetTransform m b) = Some (engineDepth b)"
    using ne by (simp add: SetTransform_ok [OF s ne] returns_def engineDepth_def engineLayers_def s)
  show ?thesis using r 1 2 3 4 5 6 by blast
qed

text \<open>The sequence of the repository's save-and-restore test, on the page of 800 by 600.\<close>

theorem engine_depth_invariant_witness:
  "fst (Begin neverFails 800 600 NewBackend) = None
   \<and> (\<exists>b. run [CmdSave, CmdSetTransform (recording_Translate 100 100), CmdRestore,
               CmdSave, CmdSave, CmdRestore] (snd (Begin neverFails 800 600 NewBackend)) = Inr b
          \<and> engineDepth b = 2
          \<and> returns engineDepth (Save b) = Some 3)"
proof -
  have h: "fst (Begin neverFails 800 600 NewBackend) = None"
    by (simp add: Begin_None_iff neverFails_def)
  show ?thesis
    using h engine_depth_invariant [OF h, of "[CmdSave, CmdSetTransform (recording_Translate 100 100),
      CmdRestore, CmdSave, CmdSave, CmdRestore]"]
    by (auto simp: unmatchedSaves_def)
qed


section \<open>\<open>Restore\<close> brings back the transform of the matching \<open>Save\<close>\<close>

text \<open>
  C3. On a backend that has a surface, after \<open>Save\<close>, \<open>SetTransform(T)\<close>, any number of
  further \<open>SetTransform\<close> calls and \<open>Restore\<close>, the current transform is the one that was
  current before the \<open>Save\<close>, whatever \<open>T\<close> is; the same holds when the saved scope holds
  any balanced list of state commands.
\<close>

theorem save_restore_reverts_transform:
  assumes "surface b = Some s" and "balanced mid"
  shows "returns currentTransform (run (CmdSave # map CmdSetTransform (T # ts) @ [CmdRestore]) b)
           = Some (currentTransform b)
       \<and> returns currentTransform (run (CmdSave # mid @ [CmdRestore]) b)
           = Some (currentTransform b)"
proof -
  have c: "closes 0 (map CmdSetTransform (T # ts))" by (simp only: closes_SetTransforms)
  from scope_restores [OF assms(1) c] have 1:
    "returns currentTransform (run (CmdSave # map CmdSetTransform (T # ts) @ [CmdRestore]) b)
           = Some (currentTransform b)"
    by (auto simp: returns_def)
  from scope_restores [OF assms(1), of mid] assms(2) have 2:
    "returns currentTransform (run (CmdSave # mid @ [CmdRestore]) b) = Some (currentTransform b)"
    by (auto simp: returns_def balanced_def)
  show ?thesis using 1 2 by blast
qed

theorem save_restore_reverts_transform_witness:
  "surface page800 = Some (emptySurface\<lparr>layers := [TransformLayer (flipTransform 600)]\<rparr>)
   \<and> balanced [CmdSave, CmdSetTransform (recording_Translate 5 5), CmdRestore]
   \<and> returns currentTransform
        (run (CmdSave # map CmdSetTransform [recording_Translate 100 100, recording_Translate 1 2]
                @ [CmdRestore]) page800) = Some recording_Identity
   \<and> returns currentTransform
        (run (CmdSave # [CmdSave, CmdSetTransform (recording_Translate 5 5), CmdRestore]
                @ [CmdRestore]) page800) = Some recording_Identity"
proof -
  have b: "balanced [CmdSave, CmdSetTransform (recording_Translate 5 5), CmdRestore]"
    by (simp add: balanced_def)
  show ?thesis
    using page800_surface b
      save_restore_reverts_transform [OF page800_surface b,
        of "recording_Translate 100 100" "[recording_Translate 1 2]"]
    by (simp add: page800_state)
qed


section \<open>Depth of the state stack\<close>

text \<open>
  C4. After a successful \<open>Begin\<close> and any sequence of state commands, the depth of the
  state stack is the number of unmatched \<open>Save\<close> calls; a \<open>Save\<close>, a balanced list and the
  matching \<open>Restore\<close> leave the depth as it was before the \<open>Save\<close>; and \<open>Restore\<close> on an
  empty state stack returns the backend unchanged in every field.
\<close>

theorem state_stack_depth:
  assumes "fst (Begin sched w h b0) = None" and "balanced mid" and "stateStack b = []"
  shows "returns stackDepth (run cs (snd (Begin sched w h b0))) = Some (unmatchedSaves cs)
       \<and> returns stackDepth (run (cs @ CmdSave # mid @ [CmdRestore]) (snd (Begin sched w h b0)))
           = returns stackDepth (run cs (snd (Begin sched w h b0)))
       \<and> Restore b = Inr b"
proof -
  let ?B = "snd (Begin sched w h b0)"
  from Begin_begun [OF assms(1)] have g0: "begun ?B" and e0: "stateStack ?B = []" by simp_all
  from run_begun [OF g0, of cs] obtain b1 where
    r: "run cs ?B = Inr b1" and g: "begun b1"
    and l: "length (stateStack b1) = unmatchedFrom (length (stateStack ?B)) cs" by blast
  from g obtain s where s: "surface b1 = Some s"
    by (auto simp: begun_def split: option.splits)
  have 1: "returns stackDepth (run cs ?B) = Some (unmatchedSaves cs)"
    using r l e0 by (simp add: returns_def stackDepth_def unmatchedSaves_def)
  from scope_restores [OF s, of mid] assms(2) obtain b2 where
    r2: "run (CmdSave # mid @ [CmdRestore]) b1 = Inr b2" and st: "stateStack b2 = stateStack b1"
    by (auto simp: balanced_def)
  have "run (cs @ CmdSave # mid @ [CmdRestore]) ?B = Inr b2"
    using r r2 by (simp add: run_append)
  then have 2: "returns stackDepth (run (cs @ CmdSave # mid @ [CmdRestore]) ?B)
           = returns stackDepth (run cs ?B)"
    using r st by (simp add: returns_def stackDepth_def)
  have 3: "Restore b = Inr b" by (rule Restore_empty [OF assms(3)])
  show ?thesis using 1 2 3 by blast
qed

theorem state_stack_depth_witness:
  "fst (Begin neverFails 800 600 NewBackend) = None
   \<and> balanced [CmdSetTransform (recording_Translate 100 100)]
   \<and> stateStack NewBackend = []
   \<and> returns stackDepth (run [CmdSave, CmdSave, CmdRestore, CmdRestore, CmdRestore, CmdSave]
        (snd (Begin neverFails 800 600 NewBackend))) = Some 1
   \<and> returns stackDepth
        (run ([CmdSave, CmdSave, CmdRestore, CmdRestore, CmdRestore, CmdSave]
                @ CmdSave # [CmdSetTransform (recording_Translate 100 100)] @ [CmdRestore])
           (snd (Begin neverFails 800 600 NewBackend))) = Some 1
   \<and> Restore NewBackend = Inr NewBackend"
proof -
  have h: "fst (Begin neverFails 800 600 NewBackend) = None"
    by (simp add: Begin_None_iff neverFails_def)
  have b: "balanced [CmdSetTransform (recording_Translate 100 100)]"
    by (simp add: balanced_def)
  have e: "stateStack NewBackend = []" by (simp add: NewBackend_def)
  show ?thesis
    using h b e
      state_stack_depth [OF h b e, of "[CmdSave, CmdSave, CmdRestore, CmdRestore, CmdRestore, CmdSave]"]
    by (simp add: unmatchedSaves_def)
qed


section \<open>Matrix field mapping\<close>

text \<open>
  C5. A drawing-space matrix \<open>[A B C; D E F]\<close> is converted to the engine's
  \<open>[a b c d e f]\<close> with \<open>a = A\<close>, \<open>b = D\<close>, \<open>c = B\<close>, \<open>d = E\<close>, \<open>e = C\<close>, \<open>f = F\<close>, and the
  drawing-space identity is converted to \<open>a = 1, b = 0, c = 0, d = 1, e = 0, f = 0\<close>.
\<close>

theorem matrixToTransform_fields:
  "matrixToTransform \<lparr>mA = A, mB = B, mC = C, mD = D, mE = E, mF = F\<rparr>
     = \<lparr>tA = A, tB = D, tC = B, tD = E, tE = C, tF = F\<rparr>
   \<and> matrixToTransform recording_Identity
     = \<lparr>tA = 1, tB = 0, tC = 0, tD = 1, tE = 0, tF = 0\<rparr>"
  by (simp add: matrixToTransform_def recording_Identity_def)


section \<open>Sweep gradients\<close>

text \<open>
  C6. The spec asks that a fill with a sweep-gradient brush that has stops is a solid fill
  in the colour of the first stop, red for the stops \<open>(0, red)\<close> and \<open>(1, green)\<close>. The
  adapter divides every channel of the stop by \<open>255\<close>, and the channels of the host's red
  are \<open>1, 0, 0\<close>: the fill handed to the engine has the red channel \<open>1 / 255\<close>, next to
  black, where the engine's red has the red channel \<open>1\<close>. With the same stops in a sweep
  gradient held by value the fill is black.
\<close>

theorem sweep_fill_divides_by_255:
  "translateBrushToFill (stopRefused noFaults)
       (SweepGradientBrush \<lparr>ptX = 200, ptY = 150\<rparr> 0 redGreenStops)
     = \<lparr>fillPaint = SolidPaint \<lparr>colR = 1 / 255, colG = 0, colB = 0\<rparr>, fillOpacity = 1,
        fillRule = PdfNonZero\<rparr>
   \<and> returns engineFill
        (FillPath noFaults trianglePath
           (SweepGradientBrush \<lparr>ptX = 200, ptY = 150\<rparr> 0 redGreenStops) FillRuleNonZero page800)
     = Some (Some \<lparr>fillPaint = SolidPaint \<lparr>colR = 1 / 255, colG = 0, colB = 0\<rparr>,
                   fillOpacity = 1, fillRule = PdfNonZero\<rparr>)
   \<and> \<lparr>colR = 1 / 255, colG = 0, colB = 0\<rparr> \<noteq> \<lparr>colR = 1, colG = 0, colB = 0\<rparr>
   \<and> translateBrushToFill (stopRefused noFaults)
       (SweepGradientBrushByValue \<lparr>ptX = 200, ptY = 150\<rparr> 0 redGreenStops)
     = \<lparr>fillPaint = SolidPaint \<lparr>colR = 0, colG = 0, colB = 0\<rparr>, fillOpacity = 1,
        fillRule = PdfNonZero\<rparr>"
proof -
  have 1: "translateBrushToFill (stopRefused noFaults)
       (SweepGradientBrush \<lparr>ptX = 200, ptY = 150\<rparr> 0 redGreenStops)
     = \<lparr>fillPaint = SolidPaint \<lparr>colR = 1 / 255, colG = 0, colB = 0\<rparr>, fillOpacity = 1,
        fillRule = PdfNonZero\<rparr>"
    by (simp add: translateBrushToFill_def NewFill_def redGreenStops_def toColor_def)
  obtain p where p: "translatePath (strayClosePanics noFaults) trianglePath = Inr p"
    using translatePath_ok [OF trianglePath_hasPoints] by blast
  have 2: "returns engineFill
        (FillPath noFaults trianglePath
           (SweepGradientBrush \<lparr>ptX = 200, ptY = 150\<rparr> 0 redGreenStops) FillRuleNonZero page800)
     = Some (Some \<lparr>fillPaint = SolidPaint \<lparr>colR = 1 / 255, colG = 0, colB = 0\<rparr>,
                   fillOpacity = 1, fillRule = PdfNonZero\<rparr>)"
    by (simp add: FillPath_ok [OF page800_surface p] returns_def engineFill_def
          curFill_surfaceFillPath 1 translateFillRule_def)
  have 3: "\<lparr>colR = 1 / 255, colG = 0, colB = 0\<rparr> \<noteq> \<lparr>colR = (1::real), colG = 0, colB = 0\<rparr>"
    by simp
  have 4: "translateBrushToFill (stopRefused noFaults)
       (SweepGradientBrushByValue \<lparr>ptX = 200, ptY = 150\<rparr> 0 redGreenStops)
     = \<lparr>fillPaint = SolidPaint \<lparr>colR = 0, colG = 0, colB = 0\<rparr>, fillOpacity = 1,
        fillRule = PdfNonZero\<rparr>"
    by (simp add: translateBrushToFill_def NewFill_def Black_def)
  show ?thesis using 1 2 3 4 by blast
qed


section \<open>Failure to create a page\<close>

text \<open>
  C7, as the spec states it: every operation that creates a page hands the engine's error
  to its caller. \<open>NewPage\<close> does not: it has no \<open>error\<close> result, and what it returns is the
  same backend without page and the same document whatever the engine's error was, while
  \<open>Begin\<close> returns the error.
\<close>

theorem NewPage_drops_error:
  "NewPage (alwaysFails ''disk full'') 400 300 NewDocument
     = NewPage (alwaysFails ''out of memory'') 400 300 NewDocument
   \<and> fst (NewPage (alwaysFails ''disk full'') 400 300 NewDocument)
     = \<lparr>creator = DocumentCreator, page = None, surface = None, width = 400, height = 300,
        stateStack = [], currentTransform = zeroMatrix\<rparr>
   \<and> fst (Begin (alwaysFails ''disk full'') 400 300 NewBackend)
     = Some ''pdf: failed to create page: disk full''"
  by (simp add: NewPage_fails Begin_fails alwaysFails_def)

text \<open>
  C7, amended. When the engine fails to create the page, \<open>Begin\<close> returns the engine's
  error behind the prefix \<open>pdf: failed to create page: \<close>, and \<open>NewPage\<close> returns a backend
  without page and surface and adds no page to the document; each has called the engine
  exactly once.
\<close>

theorem creation_failure_not_retried:
  assumes "sched 0 = Some e" and "sched (newPageCalls (docCreator d)) = Some e'"
  shows "Begin sched w h b =
           (Some (''pdf: failed to create page: '' @ e),
            b\<lparr>width := real_of_int w, height := real_of_int h,
              creator := OwnCreator (creator_New\<lparr>newPageCalls := 1\<rparr>)\<rparr>)
       \<and> NewPage sched w h d =
           (\<lparr>creator = DocumentCreator, page = None, surface = None,
             width = real_of_int w, height = real_of_int h,
             stateStack = [], currentTransform = zeroMatrix\<rparr>,
            d\<lparr>docCreator := (docCreator d)\<lparr>newPageCalls := Suc (newPageCalls (docCreator d))\<rparr>\<rparr>)"
  using assms by (simp add: Begin_fails NewPage_fails)

text \<open>An engine whose first call fails and whose second call would succeed: no second call is made.\<close>

theorem creation_failure_not_retried_witness:
  "failsOnce 0 = Some ''disk full''
   \<and> failsOnce (newPageCalls (docCreator NewDocument)) = Some ''disk full''
   \<and> fst (Begin failsOnce 400 300 NewBackend) = Some ''pdf: failed to create page: disk full''
   \<and> page (snd (Begin failsOnce 400 300 NewBackend)) = None
   \<and> creator (snd (Begin failsOnce 400 300 NewBackend))
       = OwnCreator (creator_New\<lparr>newPageCalls := 1\<rparr>)
   \<and> page (fst (NewPage failsOnce 400 300 NewDocument)) = None
   \<and> PageCount (snd (NewPage failsOnce 400 300 NewDocument)) = 0
   \<and> newPageCalls (docCreator (snd (NewPage failsOnce 400 300 NewDocument))) = 1"
proof -
  have h1: "failsOnce 0 = Some ''disk full''" by (simp add: failsOnce_def)
  have h2: "failsOnce (newPageCalls (docCreator NewDocument)) = Some ''disk full''"
    by (simp add: failsOnce_def NewDocument_def creator_New_def)
  show ?thesis
    using h1 h2 creation_failure_not_retried [OF h1 h2, of 400 300 NewBackend]
    by (simp add: NewBackend_def NewDocument_def creator_New_def PageCount_def)
qed


section \<open>Failures inside drawing operations\<close>





section \<open>The page count\<close>

text \<open>
  C9, as the spec states it: after \<open>N\<close> calls of \<open>NewPage\<close> the page count is \<open>N\<close>. After
  one call that the engine fails, the page count is \<open>0\<close>.
\<close>

theorem PageCount_after_failed_NewPage:
  "newPageCount [CmdSetTitle ''t'', CmdNewPage 400 300] = 1
   \<and> PageCount (docRun (alwaysFails ''disk full'') [CmdSetTitle ''t'', CmdNewPage 400 300] NewDocument) = 0"
  by (simp add: newPageCount_def alwaysFails_def SetTitle_def NewPage_def NewPageWithSize_def
        NewDocument_def creator_New_def PageCount_def)

text \<open>
  C9, amended. On a new document, after any sequence of \<open>NewPage\<close> calls and metadata
  setters, the page count is the number of \<open>NewPage\<close> calls whose page the engine created;
  when the engine creates every page, it is the number of \<open>NewPage\<close> calls.
\<close>

theorem PageCount_counts_created_pages:
  "PageCount (docRun sched cs NewDocument) = createdFrom sched 0 cs
   \<and> PageCount (docRun neverFails cs NewDocument) = newPageCount cs"
  by (simp add: docRun_count createdFrom_neverFails NewDocument_fresh)


section \<open>Brushes without a colour\<close>

text \<open>
  C10. For a sweep-gradient brush without stops and for a brush of a type the switch does
  not name (a sweep gradient held by value is one), the fill is solid black of full opacity, the colour taken for strokes and text is black
  (so is the colour of the translated stroke), and \<open>FillRect\<close> and \<open>DrawText\<close> return on a
  backend that has a surface and a page, as do \<open>FillPath\<close> and \<open>StrokePath\<close> for a path
  that gives every segment and every \<open>Close\<close> a current point.
\<close>

theorem undefined_colour_is_black:
  assumes "surface b = Some s" and "page b = Some pg"
    and "brush = SweepGradientBrush center angle []
         \<or> brush = SweepGradientBrushByValue center angle stops
         \<or> brush = OtherBrush"
    and "hasPoints False path"
  shows "translateBrushToFill rej brush
           = \<lparr>fillPaint = SolidPaint \<lparr>colR = 0, colG = 0, colB = 0\<rparr>, fillOpacity = 1,
              fillRule = PdfNonZero\<rparr>
       \<and> brushToColor brush = \<lparr>colR = 0, colG = 0, colB = 0\<rparr>
       \<and> returns engineFill (FillPath ft path brush rule b)
           = Some (Some \<lparr>fillPaint = SolidPaint \<lparr>colR = 0, colG = 0, colB = 0\<rparr>, fillOpacity = 1,
                         fillRule = translateFillRule rule\<rparr>)
       \<and> returns engineFill (FillRect ft rect brush b)
           = Some (Some \<lparr>fillPaint = SolidPaint \<lparr>colR = 0, colG = 0, colB = 0\<rparr>, fillOpacity = 1,
                         fillRule = PdfNonZero\<rparr>)
       \<and> pdfColor (translateStroke brush stroke) = \<lparr>colR = 0, colG = 0, colB = 0\<rparr>
       \<and> (\<exists>b'. StrokePath ft path brush stroke b = Inr b')
       \<and> (\<exists>b'. DrawText ft t x y face brush b = Inr b')"
proof -
  obtain p where p: "translatePath (strayClosePanics ft) path = Inr p"
    using translatePath_ok [OF assms(4)] by blast
  have 1: "translateBrushToFill rej brush
           = \<lparr>fillPaint = SolidPaint \<lparr>colR = 0, colG = 0, colB = 0\<rparr>, fillOpacity = 1,
              fillRule = PdfNonZero\<rparr>" for rej
    using assms(3) by (auto simp: translateBrushToFill_def NewFill_def Black_def)
  have 2: "brushToColor brush = \<lparr>colR = 0, colG = 0, colB = 0\<rparr>"
    using assms(3) by (auto simp: brushToColor_def Black_def)
  have 3: "returns engineFill (FillPath ft path brush rule b)
           = Some (Some \<lparr>fillPaint = SolidPaint \<lparr>colR = 0, colG = 0, colB = 0\<rparr>, fillOpacity = 1,
                         fillRule = translateFillRule rule\<rparr>)"
    by (simp add: FillPath_ok [OF assms(1) p] returns_def engineFill_def curFill_surfaceFillPath 1)
  have 4: "returns engineFill (FillRect ft rect brush b)
           = Some (Some \<lparr>fillPaint = SolidPaint \<lparr>colR = 0, colG = 0, colB = 0\<rparr>, fillOpacity = 1,
                         fillRule = PdfNonZero\<rparr>)"
    by (simp add: FillRect_ok [OF assms(1)] returns_def engineFill_def surfaceDrawRect_def 1)
  have 5: "\<exists>b'. StrokePath ft path brush stroke b = Inr b'"
    by (simp add: StrokePath_ok [OF assms(1) p])
  have 6: "\<exists>b'. DrawText ft t x y face brush b = Inr b'"
    using DrawText_ok [OF assms(2)] by blast
  have 7: "pdfColor (translateStroke brush stroke) = \<lparr>colR = 0, colG = 0, colB = 0\<rparr>"
    by (simp add: translateStroke_def NewStroke_def Let_def 2)
  show ?thesis using 1 2 3 4 5 6 7 by blast
qed

theorem undefined_colour_is_black_witness:
  "surface page800 = Some (emptySurface\<lparr>layers := [TransformLayer (flipTransform 600)]\<rparr>)
   \<and> page page800 = Some emptyPage
   \<and> (SweepGradientBrush \<lparr>ptX = 200, ptY = 150\<rparr> 0 [] = SweepGradientBrush \<lparr>ptX = 200, ptY = 150\<rparr> 0 []
        \<or> SweepGradientBrush \<lparr>ptX = 200, ptY = 150\<rparr> 0 []
            = SweepGradientBrushByValue \<lparr>ptX = 200, ptY = 150\<rparr> 0 redGreenStops
        \<or> SweepGradientBrush \<lparr>ptX = 200, ptY = 150\<rparr> 0 [] = OtherBrush)
   \<and> hasPoints False trianglePath
   \<and> translateBrushToFill (stopRefused noFaults) (SweepGradientBrush \<lparr>ptX = 200, ptY = 150\<rparr> 0 [])
       = \<lparr>fillPaint = SolidPaint \<lparr>colR = 0, colG = 0, colB = 0\<rparr>, fillOpacity = 1,
          fillRule = PdfNonZero\<rparr>
   \<and> brushToColor (SweepGradientBrush \<lparr>ptX = 200, ptY = 150\<rparr> 0 []) = \<lparr>colR = 0, colG = 0, colB = 0\<rparr>
   \<and> returns engineFill
        (FillPath noFaults trianglePath (SweepGradientBrush \<lparr>ptX = 200, ptY = 150\<rparr> 0 [])
           FillRuleEvenOdd page800)
       = Some (Some \<lparr>fillPaint = SolidPaint \<lparr>colR = 0, colG = 0, colB = 0\<rparr>, fillOpacity = 1,
                     fillRule = PdfEvenOdd\<rparr>)"
proof -
  have h: "SweepGradientBrush \<lparr>ptX = 200, ptY = 150\<rparr> 0 [] = SweepGradientBrush \<lparr>ptX = 200, ptY = 150\<rparr> 0 []
        \<or> SweepGradientBrush \<lparr>ptX = 200, ptY = 150\<rparr> 0 []
            = SweepGradientBrushByValue \<lparr>ptX = 200, ptY = 150\<rparr> 0 redGreenStops
        \<or> SweepGradientBrush \<lparr>ptX = 200, ptY = 150\<rparr> 0 [] = OtherBrush" by simp
  show ?thesis
    using page800_surface page800_page trianglePath_hasPoints
      undefined_colour_is_black [OF page800_surface page800_page h trianglePath_hasPoints,
        of "stopRefused noFaults" noFaults FillRuleEvenOdd]
    by (simp add: translateFillRule_def)
qed

end
